theory Spec2Isabelle
  imports Main "HOL-Library.Sublist" "HOL-Library.AList"
begin

section \<open>The host interpreter: exceptions, values and built-ins\<close>

text \<open>
  ExplainFlow's trace engine (\<^verbatim>\<open>src/explainflow/tracer.py\<close>, \<^verbatim>\<open>src/explainflow/models.py\<close>)
  runs on top of the Python interpreter. This section models the part of the interpreter
  the engine observes: exception objects, live values, and the built-ins the engine calls
  on them (\<^verbatim>\<open>repr\<close>, \<^verbatim>\<open>str\<close>, \<^verbatim>\<open>==\<close>, \<^verbatim>\<open>callable\<close>, \<^verbatim>\<open>hasattr\<close>,
  \<^verbatim>\<open>copy.deepcopy\<close>, and the string methods). Strings are sequences of Latin-1 code
  points.
\<close>

text \<open>
  An exception object, as far as the engine looks at it: \<^verbatim>\<open>type(e).__name__\<close>, the
  outcome of \<^verbatim>\<open>str(e)\<close> (the text, or the exception that \<^verbatim>\<open>__str__\<close> raises), and
  whether it is an instance of \<^verbatim>\<open>Exception\<close> (what an \<^verbatim>\<open>except Exception\<close> clause
  catches; \<^verbatim>\<open>SystemExit\<close>, \<^verbatim>\<open>KeyboardInterrupt\<close> and \<^verbatim>\<open>GeneratorExit\<close> are not).
\<close>

datatype pyexc =
  PyExc (exc_type: string) (exc_str: "pyexc + string") (exc_is_Exception: bool)

text \<open>
  An opaque object (function, class, module, instance of a user class), given by what the
  engine can observe of it: its identity, \<^verbatim>\<open>type(o).__name__\<close>, the outcome of
  \<^verbatim>\<open>repr(o)\<close> and of \<^verbatim>\<open>str(o)\<close> (\<open>Inl\<close> when the method raises), \<^verbatim>\<open>callable(o)\<close>,
  \<^verbatim>\<open>hasattr(o, '__explainflow_traced__')\<close>, \<^verbatim>\<open>bool(o)\<close>, and what
  \<^verbatim>\<open>copy.deepcopy(o)\<close> does. Two opaque objects are equal under \<^verbatim>\<open>==\<close> when they have
  the same identity. A deep copy raises (a module, a generator), or gives an object equal
  to the original (a function or a class, which are copied as themselves; an instance
  whose class defines \<^verbatim>\<open>__eq__\<close> by value), or gives a distinct object with an identity
  of its own (an instance with the default \<^verbatim>\<open>object.__eq__\<close>), which then compares
  unequal to the original.
\<close>

datatype copy_result = CopyRaises | CopyEqual | CopyDistinct nat

record pyobject =
  obj_id :: nat
  obj_type :: string
  obj_repr :: "pyexc + string"
  obj_str :: "pyexc + string"
  obj_callable :: bool
  obj_traced :: bool
  obj_truthy :: bool
  obj_copy :: copy_result

datatype pyvalue =
    PyNone
  | PyBool bool
  | PyInt int
  | PyStr string
  | PyList "pyvalue list"
  | PyTuple "pyvalue list"
  | PyObject pyobject

subsection \<open>Decimal and hexadecimal rendering\<close>

definition digit_char :: "nat \<Rightarrow> char" where
  "digit_char d = char_of (of_char (CHR ''0'') + d :: nat)"

fun show_nat :: "nat \<Rightarrow> string" where
  "show_nat n = (if n < 10 then [digit_char n] else show_nat (n div 10) @ [digit_char (n mod 10)])"

declare show_nat.simps [simp del]

definition show_int :: "int \<Rightarrow> string" where
  "show_int i = (if i < 0 then CHR ''-'' # show_nat (nat (- i)) else show_nat (nat i))"

definition hex_char :: "nat \<Rightarrow> char" where
  "hex_char d = (if d < 10 then digit_char d else char_of (of_char (CHR ''a'') + (d - 10) :: nat))"

subsection \<open>String methods\<close>

text \<open>\<^verbatim>\<open>str.isspace\<close> on one Latin-1 code point: what \<^verbatim>\<open>str.strip()\<close> removes.\<close>

definition is_space :: "char \<Rightarrow> bool" where
  "is_space c = (let n = (of_char c :: nat) in
     (9 \<le> n \<and> n \<le> 13) \<or> (28 \<le> n \<and> n \<le> 32) \<or> n = 133 \<or> n = 160)"

definition strip :: "string \<Rightarrow> string" where
  "strip s = rev (dropWhile is_space (rev (dropWhile is_space s)))"

text \<open>\<^verbatim>\<open>s.startswith(p)\<close> and \<^verbatim>\<open>sub in s\<close>.\<close>

definition startswith :: "string \<Rightarrow> string \<Rightarrow> bool" where
  "startswith s p = prefix p s"

definition contains :: "string \<Rightarrow> string \<Rightarrow> bool" where
  "contains sub s = sublist sub s"

text \<open>\<^verbatim>\<open>s.split(c)\<close> for a one-character separator: never empty, \<^verbatim>\<open>''.split(c) == ['']\<close>.\<close>

fun split_char :: "char \<Rightarrow> string \<Rightarrow> string list" where
  "split_char c [] = [[]]"
| "split_char c (x # xs) =
     (if x = c then [] # split_char c xs
      else (case split_char c xs of
              [] \<Rightarrow> [[x]]
            | p # ps \<Rightarrow> (x # p) # ps))"

text \<open>\<^verbatim>\<open>s.split(c, 1)\<close>: split at the first occurrence only.\<close>

definition split_first :: "char \<Rightarrow> string \<Rightarrow> string list" where
  "split_first c s =
     (if c \<in> set s then [takeWhile (\<lambda>x. x \<noteq> c) s, tl (dropWhile (\<lambda>x. x \<noteq> c) s)] else [s])"

text \<open>\<^verbatim>\<open>sep.join(parts)\<close>.\<close>

fun join :: "string \<Rightarrow> string list \<Rightarrow> string" where
  "join sep [] = []"
| "join sep [p] = p"
| "join sep (p # q # ps) = p @ sep @ join sep (q # ps)"

subsection \<open>repr, str, truth value, equality\<close>

text \<open>
  \<^verbatim>\<open>repr\<close> of a string: double quotes when the text has a single quote and no double
  quote, single quotes otherwise; the quote and the backslash are escaped, tab, newline
  and carriage return are written \<^verbatim>\<open>\t \n \r\<close>, and every other non-printable code point
  is written \<^verbatim>\<open>\xhh\<close>.
\<close>

definition repr_quote :: "string \<Rightarrow> char" where
  "repr_quote s = (if CHR 0x27 \<in> set s \<and> CHR 0x22 \<notin> set s then CHR 0x22 else CHR 0x27)"

definition repr_char :: "char \<Rightarrow> char \<Rightarrow> string" where
  "repr_char q c = (let n = (of_char c :: nat) in
     if c = q \<or> c = CHR 0x5C then [CHR 0x5C, c]
     else if n = 9 then [CHR 0x5C, CHR ''t'']
     else if n = 10 then [CHR 0x5C, CHR ''n'']
     else if n = 13 then [CHR 0x5C, CHR ''r'']
     else if n < 32 \<or> n = 127 \<or> (128 \<le> n \<and> n \<le> 160) \<or> n = 173
       then [CHR 0x5C, CHR ''x'', hex_char (n div 16), hex_char (n mod 16)]
     else [c])"

definition repr_str :: "string \<Rightarrow> string" where
  "repr_str s = (let q = repr_quote s in [q] @ concat (map (repr_char q) s) @ [q])"

text \<open>Collect the results of a sequence of calls; the first one that raises wins.\<close>

fun collect :: "('e + 'a) list \<Rightarrow> 'e + 'a list" where
  "collect [] = Inr []"
| "collect (Inl e # rs) = Inl e"
| "collect (Inr x # rs) = (case collect rs of Inl e \<Rightarrow> Inl e | Inr xs \<Rightarrow> Inr (x # xs))"

fun py_repr :: "pyvalue \<Rightarrow> pyexc + string" where
  "py_repr PyNone = Inr ''None''"
| "py_repr (PyBool b) = Inr (if b then ''True'' else ''False'')"
| "py_repr (PyInt i) = Inr (show_int i)"
| "py_repr (PyStr s) = Inr (repr_str s)"
| "py_repr (PyList vs) =
     (case collect (map py_repr vs) of
        Inl e \<Rightarrow> Inl e
      | Inr rs \<Rightarrow> Inr (''['' @ join '', '' rs @ '']''))"
| "py_repr (PyTuple vs) =
     (case collect (map py_repr vs) of
        Inl e \<Rightarrow> Inl e
      | Inr rs \<Rightarrow> Inr (''('' @ join '', '' rs @ (if length rs = 1 then '','' else '''') @ '')''))"
| "py_repr (PyObject ob) = obj_repr ob"

text \<open>\<^verbatim>\<open>str(v)\<close>, which is what an f-string field \<^verbatim>\<open>{v}\<close> renders.\<close>

definition py_str :: "pyvalue \<Rightarrow> pyexc + string" where
  "py_str v = (case v of PyStr s \<Rightarrow> Inr s | PyObject ob \<Rightarrow> obj_str ob | _ \<Rightarrow> py_repr v)"

text \<open>\<^verbatim>\<open>bool(v)\<close>, the test of \<^verbatim>\<open>if v:\<close>.\<close>

definition truthy :: "pyvalue \<Rightarrow> bool" where
  "truthy v = (case v of
       PyNone \<Rightarrow> False
     | PyBool b \<Rightarrow> b
     | PyInt i \<Rightarrow> i \<noteq> 0
     | PyStr s \<Rightarrow> s \<noteq> []
     | PyList vs \<Rightarrow> vs \<noteq> []
     | PyTuple vs \<Rightarrow> vs \<noteq> []
     | PyObject ob \<Rightarrow> obj_truthy ob)"

text \<open>
  \<^verbatim>\<open>a == b\<close>: value equality. Booleans are the integers 0 and 1, sequences compare
  element by element, opaque objects by identity.
\<close>

fun py_eq :: "pyvalue \<Rightarrow> pyvalue \<Rightarrow> bool"
  and py_eq_list :: "pyvalue list \<Rightarrow> pyvalue list \<Rightarrow> bool" where
  "py_eq PyNone b = (b = PyNone)"
| "py_eq (PyBool x) b =
     (case b of PyBool y \<Rightarrow> x = y | PyInt j \<Rightarrow> (if x then 1 else 0) = j | _ \<Rightarrow> False)"
| "py_eq (PyInt i) b =
     (case b of PyBool y \<Rightarrow> i = (if y then 1 else 0) | PyInt j \<Rightarrow> i = j | _ \<Rightarrow> False)"
| "py_eq (PyStr s) b = (case b of PyStr t \<Rightarrow> s = t | _ \<Rightarrow> False)"
| "py_eq (PyList vs) b = (case b of PyList ws \<Rightarrow> py_eq_list vs ws | _ \<Rightarrow> False)"
| "py_eq (PyTuple vs) b = (case b of PyTuple ws \<Rightarrow> py_eq_list vs ws | _ \<Rightarrow> False)"
| "py_eq (PyObject ob) b = (case b of PyObject ob' \<Rightarrow> obj_id ob = obj_id ob' | _ \<Rightarrow> False)"
| "py_eq_list [] ws = (ws = [])"
| "py_eq_list (v # vs) ws = (case ws of [] \<Rightarrow> False | w # ws' \<Rightarrow> py_eq v w \<and> py_eq_list vs ws')"

text \<open>\<^verbatim>\<open>a != b\<close>.\<close>

definition py_ne :: "pyvalue \<Rightarrow> pyvalue \<Rightarrow> bool" where
  "py_ne a b = (\<not> py_eq a b)"

text \<open>\<^verbatim>\<open>type(v).__name__\<close>, \<^verbatim>\<open>callable(v)\<close>, \<^verbatim>\<open>hasattr(v, '__explainflow_traced__')\<close>.\<close>

definition py_type_name :: "pyvalue \<Rightarrow> string" where
  "py_type_name v = (case v of
       PyNone \<Rightarrow> ''NoneType''
     | PyBool _ \<Rightarrow> ''bool''
     | PyInt _ \<Rightarrow> ''int''
     | PyStr _ \<Rightarrow> ''str''
     | PyList _ \<Rightarrow> ''list''
     | PyTuple _ \<Rightarrow> ''tuple''
     | PyObject ob \<Rightarrow> obj_type ob)"

definition callable :: "pyvalue \<Rightarrow> bool" where
  "callable v = (case v of PyObject ob \<Rightarrow> obj_callable ob | _ \<Rightarrow> False)"

definition has_explainflow_traced :: "pyvalue \<Rightarrow> bool" where
  "has_explainflow_traced v = (case v of PyObject ob \<Rightarrow> obj_traced ob | _ \<Rightarrow> False)"

text \<open>
  \<^verbatim>\<open>copy.deepcopy(v)\<close>: \<open>None\<close> when it raises (an object that cannot be copied, alone or
  inside a sequence; the exception is an instance of \<^verbatim>\<open>Exception\<close>, such as the
  \<^verbatim>\<open>TypeError\<close> for a module). Numbers, strings and \<^verbatim>\<open>None\<close> are copied as themselves,
  sequences element by element, and the copy of an opaque object differs from it in
  identity alone.
\<close>

fun deepcopy :: "pyvalue \<Rightarrow> pyvalue option"
  and deepcopy_list :: "pyvalue list \<Rightarrow> pyvalue list option" where
  "deepcopy (PyList vs) = map_option PyList (deepcopy_list vs)"
| "deepcopy (PyTuple vs) = map_option PyTuple (deepcopy_list vs)"
| "deepcopy (PyObject ob) =
     (case obj_copy ob of
        CopyRaises \<Rightarrow> None
      | CopyEqual \<Rightarrow> Some (PyObject ob)
      | CopyDistinct k \<Rightarrow> Some (PyObject (ob\<lparr>obj_id := k\<rparr>)))"
| "deepcopy PyNone = Some PyNone"
| "deepcopy (PyBool b) = Some (PyBool b)"
| "deepcopy (PyInt i) = Some (PyInt i)"
| "deepcopy (PyStr s) = Some (PyStr s)"
| "deepcopy_list [] = Some []"
| "deepcopy_list (v # vs) =
     (case deepcopy v of
        None \<Rightarrow> None
      | Some c \<Rightarrow> (case deepcopy_list vs of None \<Rightarrow> None | Some cs \<Rightarrow> Some (c # cs)))"


section \<open>Data models (\<^verbatim>\<open>models.py\<close>)\<close>

datatype StepType =
    LINE | CALL | RETURN | EXCEPTION | ASSIGNMENT
  | LOOP_START | LOOP_ITERATION | LOOP_END | CONDITION

text \<open>
  The dataclass \<^verbatim>\<open>Variable\<close>. The field \<^verbatim>\<open>value\<close> is called \<open>var_value\<close> here.
\<close>

record Variable =
  name :: string
  var_value :: pyvalue
  type_name :: string
  repr_value :: string
  changed :: bool

text \<open>A \<^verbatim>\<open>dict[str, Variable]\<close>, in insertion order.\<close>

type_synonym variables = "(string \<times> Variable) list"

definition is_copyable :: "pyvalue \<Rightarrow> bool" where
  "is_copyable v = (case deepcopy v of Some _ \<Rightarrow> True | None \<Rightarrow> False)"

text \<open>
  \<^verbatim>\<open>Variable.from_value(name, value, previous_value=None)\<close>. The \<^verbatim>\<open>try\<close> around
  \<^verbatim>\<open>repr\<close> catches \<^verbatim>\<open>Exception\<close> only, so any other exception leaves the function
  (\<open>Inl\<close>).
\<close>

definition from_value :: "string \<Rightarrow> pyvalue \<Rightarrow> pyvalue \<Rightarrow> pyexc + Variable" where
  "from_value nm v previous_value =
     (case (case py_repr v of
              Inr r \<Rightarrow> Inr (if length r > 100 then take 97 r @ ''...'' else r)
            | Inl e \<Rightarrow> if exc_is_Exception e then Inr ''<repr error>'' else Inl e) of
        Inl e \<Rightarrow> Inl e
      | Inr repr_val \<Rightarrow>
          Inr \<lparr> name = nm,
                var_value = (if is_copyable v
                             then (case deepcopy v of Some c \<Rightarrow> c | None \<Rightarrow> v) else v),
                type_name = py_type_name v,
                repr_value = repr_val,
                changed = (previous_value \<noteq> PyNone \<and> py_ne previous_value v) \<rparr>)"

text \<open>
  The dataclass \<^verbatim>\<open>ExecutionStep\<close>; its field \<^verbatim>\<open>call_depth\<close> is called
  \<open>step_call_depth\<close> here, since the tracer has a field of the same name, and
  \<^verbatim>\<open>output\<close> is called \<open>step_output\<close>. An absent
  \<^verbatim>\<open>return_value\<close> is Python's \<^verbatim>\<open>None\<close>.
\<close>

record ExecutionStep =
  step_number :: int
  line_number :: int
  line_content :: string
  step_type :: StepType
  variables :: variables
  step_output :: string
  return_value :: pyvalue
  exception :: "pyexc option"
  function_name :: "string option"
  step_call_depth :: int
  explanation :: string

text \<open>
  The dataclass \<^verbatim>\<open>ExecutionTrace\<close>; its field \<^verbatim>\<open>steps\<close> is called \<open>trace_steps\<close>
  here.
\<close>

record ExecutionTrace =
  code :: string
  trace_steps :: "ExecutionStep list"
  final_output :: string
  final_variables :: variables
  success :: bool
  error_message :: string
  total_lines :: int

section \<open>The tracer (\<^verbatim>\<open>tracer.py\<close>)\<close>

subsection \<open>The output buffer\<close>

text \<open>
  \<^verbatim>\<open>self.output_buffer\<close> is an \<^verbatim>\<open>io.StringIO\<close>: a text, a stream position, and
  whether the stream has been closed. While the program runs, the buffer is the program's
  \<^verbatim>\<open>sys.stdout\<close> and \<^verbatim>\<open>sys.stderr\<close>, so the program can do to it whatever a
  \<^verbatim>\<open>StringIO\<close> allows: \<^verbatim>\<open>write\<close> (which \<^verbatim>\<open>print\<close> calls), \<^verbatim>\<open>seek\<close> to a position or
  to the end, \<^verbatim>\<open>truncate\<close>, \<^verbatim>\<open>close\<close>.
\<close>

record out_buffer =
  buf_text :: string
  buf_pos :: nat
  buf_closed :: bool

definition StringIO :: out_buffer where
  "StringIO = \<lparr> buf_text = [], buf_pos = 0, buf_closed = False \<rparr>"

datatype stream_op = Write string | Seek nat | SeekEnd | Truncate "nat option" | Close

text \<open>
  One operation of the program on the buffer. \<^verbatim>\<open>write\<close> overwrites from the stream
  position on, padding with NUL characters when the position lies beyond the end;
  \<^verbatim>\<open>truncate\<close> cuts the text at the given size, or at the position, and does not move
  the position. On a closed stream every operation but \<^verbatim>\<open>close\<close> raises in the program
  and leaves the buffer as it is.
\<close>

fun apply_op :: "out_buffer \<Rightarrow> stream_op \<Rightarrow> out_buffer" where
  "apply_op b Close = b\<lparr>buf_closed := True\<rparr>"
| "apply_op b (Write s) =
     (if buf_closed b then b
      else let t = buf_text b @ replicate (buf_pos b - length (buf_text b)) (CHR 0x00)
           in b\<lparr>buf_text := take (buf_pos b) t @ s @ drop (buf_pos b + length s) t,
                buf_pos := buf_pos b + length s\<rparr>)"
| "apply_op b (Seek n) = (if buf_closed b then b else b\<lparr>buf_pos := n\<rparr>)"
| "apply_op b SeekEnd = (if buf_closed b then b else b\<lparr>buf_pos := length (buf_text b)\<rparr>)"
| "apply_op b (Truncate None) =
     (if buf_closed b then b else b\<lparr>buf_text := take (buf_pos b) (buf_text b)\<rparr>)"
| "apply_op b (Truncate (Some n)) =
     (if buf_closed b then b else b\<lparr>buf_text := take n (buf_text b)\<rparr>)"

definition apply_ops :: "out_buffer \<Rightarrow> stream_op list \<Rightarrow> out_buffer" where
  "apply_ops b ops = foldl apply_op b ops"

text \<open>\<^verbatim>\<open>buffer.getvalue()\<close>: the whole text, or \<^verbatim>\<open>ValueError\<close> on a closed stream.\<close>

definition closed_file_error :: pyexc where
  "closed_file_error = PyExc ''ValueError'' (Inr ''I/O operation on closed file'') True"

definition getvalue :: "out_buffer \<Rightarrow> pyexc + string" where
  "getvalue b = (if buf_closed b then Inl closed_file_error else Inr (buf_text b))"

subsection \<open>The tracer's state\<close>

text \<open>The attributes of a \<^verbatim>\<open>Tracer\<close> instance; \<^verbatim>\<open>_stopped\<close> is \<open>stopped\<close>.\<close>

record Tracer =
  max_steps :: int
  steps :: "ExecutionStep list"
  step_count :: int
  code_lines :: "string list"
  previous_variables :: "(string \<times> pyvalue) list"
  current_variables :: variables
  output_buffer :: out_buffer
  call_depth :: int
  traced_filename :: string
  stopped :: bool

text \<open>\<^verbatim>\<open>Tracer(max_steps)\<close>, the constructor.\<close>

definition Tracer_init :: "int \<Rightarrow> Tracer" where
  "Tracer_init m =
     \<lparr> max_steps = m, steps = [], step_count = 0, code_lines = [],
       previous_variables = [], current_variables = [], output_buffer = StringIO,
       call_depth = 0, traced_filename = ''<explainflow>'', stopped = False \<rparr>"

text \<open>What the callback reads of a frame object.\<close>

record frame =
  co_filename :: string
  co_name :: string
  f_lineno :: int
  f_locals :: "(string \<times> pyvalue) list"

text \<open>The event names \<^verbatim>\<open>'line'\<close>, \<^verbatim>\<open>'call'\<close>, \<^verbatim>\<open>'return'\<close>, \<^verbatim>\<open>'exception'\<close>.\<close>

datatype trace_event = EvLine | EvCall | EvReturn | EvException

subsection \<open>\<^verbatim>\<open>_determine_line_type\<close>\<close>

definition determine_line_type :: "string \<Rightarrow> StepType" where
  "determine_line_type line =
     (let stripped = strip line in
      if stripped = [] \<or> startswith stripped ''#'' then LINE
      else if contains ''='' stripped \<and>
              \<not> list_ex (\<lambda>op. contains op stripped)
                   [''=='', ''!='', ''<='', ''>='', ''+='', ''-='', ''*='', ''/='']
        then ASSIGNMENT
      else if list_ex (\<lambda>op. contains op stripped)
                [''+='', ''-='', ''*='', ''/='', ''//='', ''%='', ''**='', ''&='', ''|='', ''^='']
        then ASSIGNMENT
      else if startswith stripped ''for '' \<or> startswith stripped ''while '' then LOOP_START
      else if startswith stripped ''if '' \<or> startswith stripped ''elif '' \<or>
              startswith stripped ''else''
        then CONDITION
      else LINE)"

subsection \<open>\<^verbatim>\<open>_capture_variables\<close>\<close>

text \<open>\<^verbatim>\<open>d.get(k)\<close> on a dict of values: Python's \<^verbatim>\<open>None\<close> when the key is absent.\<close>

definition dict_get :: "(string \<times> pyvalue) list \<Rightarrow> string \<Rightarrow> pyvalue" where
  "dict_get d k = (case map_of d k of None \<Rightarrow> PyNone | Some v \<Rightarrow> v)"

text \<open>
  The loop over \<^verbatim>\<open>frame.f_locals.items()\<close>, with the dict \<^verbatim>\<open>variables\<close> built so
  far; \<^verbatim>\<open>variables[name] = ...\<close> is \<open>AList.update\<close>.
\<close>

fun capture_loop ::
  "(string \<times> pyvalue) list \<Rightarrow> (string \<times> pyvalue) list \<Rightarrow> variables \<Rightarrow> pyexc + variables" where
  "capture_loop prev [] vars = Inr vars"
| "capture_loop prev ((nm, v) # rest) vars =
     (if startswith nm ''_'' then capture_loop prev rest vars
      else if callable v \<and> \<not> has_explainflow_traced v then capture_loop prev rest vars
      else (case from_value nm v (dict_get prev nm) of
              Inl e \<Rightarrow> Inl e
            | Inr var \<Rightarrow> capture_loop prev rest (AList.update nm var vars)))"

definition capture_variables :: "Tracer \<Rightarrow> frame \<Rightarrow> Tracer \<times> (pyexc + variables)" where
  "capture_variables self fr =
     (case capture_loop (previous_variables self) (f_locals fr) [] of
        Inl e \<Rightarrow> (self, Inl e)
      | Inr vars \<Rightarrow>
          (self\<lparr>previous_variables := map (\<lambda>(nm, var). (nm, var_value var)) vars\<rparr>,
           Inr vars))"

subsection \<open>\<^verbatim>\<open>_generate_explanation\<close>\<close>

definition generate_explanation ::
  "StepType \<Rightarrow> string \<Rightarrow> variables \<Rightarrow> pyvalue \<Rightarrow> pyexc + string" where
  "generate_explanation st line vars arg =
     (let stripped = strip line in
      if st = ASSIGNMENT then
        (case filter changed (map snd vars) of
           var # _ \<Rightarrow> Inr (''Set '' @ name var @ '' to '' @ repr_value var)
         | [] \<Rightarrow>
             (case (if contains ''='' stripped
                    then (case split_first (CHR ''='') stripped of
                            [p0, p1] \<Rightarrow>
                              (case map_of vars (strip p0) of
                                 Some var \<Rightarrow> Some (strip p0, var)
                               | None \<Rightarrow> None)
                          | _ \<Rightarrow> None)
                    else None) of
                Some (var_name, var) \<Rightarrow>
                  Inr (''Set '' @ var_name @ '' to '' @ repr_value var)
              | None \<Rightarrow> Inr (''Assignment: '' @ stripped)))
      else if st = LOOP_START then
        (if startswith stripped ''for '' then Inr (''Starting loop: '' @ stripped)
         else Inr (''Checking loop condition: '' @ stripped))
      else if st = CONDITION then Inr (''Evaluating condition: '' @ stripped)
      else if st = CALL then Inr ''Calling function''
      else if st = RETURN then
        (if arg \<noteq> PyNone
         then (case py_repr arg of Inl e \<Rightarrow> Inl e | Inr r \<Rightarrow> Inr (''Returning: '' @ r))
         else Inr ''Returning from function'')
      else if st = EXCEPTION then
        (if truthy arg
         then (case py_str arg of Inl e \<Rightarrow> Inl e | Inr s \<Rightarrow> Inr (''Exception: '' @ s))
         else Inr ''Exception occurred'')
      else Inr (if stripped \<noteq> [] then ''Executing: '' @ stripped else ''Empty line''))"

subsection \<open>\<^verbatim>\<open>_trace_callback\<close>\<close>

text \<open>
  The callback returns itself to go on and \<^verbatim>\<open>None\<close> to stop; it may also raise, when a
  built-in it calls raises. The attributes it assigned before raising stay assigned: in
  particular \<^verbatim>\<open>step_count\<close> is already incremented when \<^verbatim>\<open>getvalue()\<close> raises on a
  closed buffer, and no step is appended then.

  The built-ins that can raise here are \<^verbatim>\<open>repr\<close>, \<^verbatim>\<open>str\<close> and \<^verbatim>\<open>getvalue\<close>. The
  comparison \<^verbatim>\<open>!=\<close>, \<^verbatim>\<open>callable\<close>, \<^verbatim>\<open>hasattr\<close> and the truth test are total on
  the values of this theory, whose names are always strings.
\<close>

datatype cb_signal = KeepTracing | StopTracing

definition trace_callback ::
  "Tracer \<Rightarrow> frame \<Rightarrow> trace_event \<Rightarrow> pyvalue \<Rightarrow> Tracer \<times> (pyexc + cb_signal)" where
  "trace_callback self fr event arg =
     (if stopped self \<or> step_count self \<ge> max_steps self
        then (self\<lparr>stopped := True\<rparr>, Inr StopTracing)
      else if co_filename fr \<noteq> traced_filename self then (self, Inr KeepTracing)
      else
        let line_no = f_lineno fr;
            content = (if 1 \<le> line_no \<and> line_no \<le> int (length (code_lines self))
                       then code_lines self ! nat (line_no - 1) else []);
            st = (case event of
                    EvCall \<Rightarrow> CALL
                  | EvReturn \<Rightarrow> RETURN
                  | EvException \<Rightarrow> EXCEPTION
                  | EvLine \<Rightarrow> determine_line_type content);
            self1 = (case event of
                       EvCall \<Rightarrow> self\<lparr>call_depth := call_depth self + 1\<rparr>
                     | EvReturn \<Rightarrow> self\<lparr>call_depth := max 0 (call_depth self - 1)\<rparr>
                     | _ \<Rightarrow> self)
        in (case capture_variables self1 fr of
              (self2, Inl e) \<Rightarrow> (self2, Inl e)
            | (self2, Inr vars) \<Rightarrow>
                (case generate_explanation st content vars arg of
                   Inl e \<Rightarrow> (self2, Inl e)
                 | Inr expl \<Rightarrow>
                     let self3 = self2\<lparr>step_count := step_count self2 + 1\<rparr>
                     in (case getvalue (output_buffer self3) of
                           Inl e \<Rightarrow> (self3, Inl e)
                         | Inr out \<Rightarrow>
                             let step = \<lparr> step_number = step_count self3,
                                          line_number = line_no,
                                          line_content = content,
                                          step_type = st,
                                          variables = vars,
                                          step_output = out,
                                          return_value = (if event = EvReturn then arg else PyNone),
                                          exception = None,
                                          function_name = (if co_name fr \<noteq> ''<module>''
                                                           then Some (co_name fr) else None),
                                          step_call_depth = call_depth self3,
                                          explanation = expl \<rparr>
                             in (self3\<lparr>steps := steps self3 @ [step],
                                       current_variables := vars\<rparr>,
                                 Inr KeepTracing)))))"


subsection \<open>The interpreter running the traced program\<close>

text \<open>
  \<^verbatim>\<open>Tracer.trace\<close> hands the source text to \<^verbatim>\<open>compile\<close> and the code object to
  \<^verbatim>\<open>exec\<close> under \<^verbatim>\<open>sys.settrace\<close>. What the interpreter does with a given source
  text is an input of the model: either \<^verbatim>\<open>compile\<close> raises, or the program runs, and
  the run is the sequence of invocations of the trace function, each followed by the
  operations the program performs on the redirected \<^verbatim>\<open>stdout\<close>/\<^verbatim>\<open>stderr\<close> after the
  invocation has returned and before the next one (or the end), followed by the way the
  run ends. Nothing of the program runs before the first invocation.

  The list holds every invocation the interpreter makes, those after the callback has
  answered \<^verbatim>\<open>None\<close> included; the program itself goes on running whatever the callback
  answers.

  When the trace function itself raises, the interpreter switches tracing off and
  raises the exception inside the traced program; \<open>cb_on_fault\<close> says how the program
  ends then. A run that never ends has the outcome \<open>Diverges\<close>.
\<close>

datatype outcome = Completed | Raised pyexc | Diverges

record run_end =
  end_stream :: "stream_op list"
  end_outcome :: outcome
  end_locals :: "(string \<times> pyvalue) list"

record callback_call =
  cb_frame :: frame
  cb_event :: trace_event
  cb_arg :: pyvalue
  cb_after :: "stream_op list"
  cb_on_fault :: "pyexc \<Rightarrow> run_end"

record program_run =
  run_calls :: "callback_call list"
  run_finish :: run_end

text \<open>
  \<^verbatim>\<open>compile(code, filename, 'exec')\<close>: a \<^verbatim>\<open>SyntaxError\<close> with its \<^verbatim>\<open>msg\<close> and
  \<^verbatim>\<open>lineno\<close> (which may be \<^verbatim>\<open>None\<close>), any other exception, or a code object, given by
  the run it produces.
\<close>

datatype host =
    CompileSyntaxError string "int option"
  | CompileRaises pyexc
  | Compiled program_run

text \<open>
  \<^verbatim>\<open>exec(compiled, ...)\<close> with \<^verbatim>\<open>self._trace_callback\<close> installed: the state of the
  tracer afterwards, the number of times the interpreter invoked the callback, and the end
  of the run.
\<close>

fun exec_traced :: "Tracer \<Rightarrow> callback_call list \<Rightarrow> run_end \<Rightarrow> Tracer \<times> nat \<times> run_end" where
  "exec_traced self [] fin =
     (self\<lparr>output_buffer := apply_ops (output_buffer self) (end_stream fin)\<rparr>, 0, fin)"
| "exec_traced self (c # cs) fin =
     (case trace_callback self (cb_frame c) (cb_event c) (cb_arg c) of
        (self1, Inl e) \<Rightarrow>
          (self1\<lparr>output_buffer :=
                   apply_ops (output_buffer self1) (end_stream (cb_on_fault c e))\<rparr>,
           1, cb_on_fault c e)
      | (self1, Inr _) \<Rightarrow>
          (case exec_traced
                  (self1\<lparr>output_buffer := apply_ops (output_buffer self1) (cb_after c)\<rparr>)
                  cs fin of
             (self2, n, fin') \<Rightarrow> (self2, Suc n, fin')))"

subsection \<open>\<^verbatim>\<open>Tracer.trace\<close>\<close>

text \<open>
  A call of \<^verbatim>\<open>trace\<close> returns an \<^verbatim>\<open>ExecutionTrace\<close>, lets an exception through to its
  caller, or never returns.
\<close>

datatype trace_result = Returned ExecutionTrace | Propagated pyexc | NoReturn

text \<open>
  What a call of \<^verbatim>\<open>trace\<close> does: the state it leaves in the tracer, how many times
  the interpreter invoked the callback, how the execution of the program ended (\<open>None\<close>
  when it was never started), and the result.
\<close>

record trace_call =
  self_after :: Tracer
  callback_calls :: nat
  exec_end :: "run_end option"
  result :: trace_result

text \<open>The loop over \<^verbatim>\<open>exec_locals.items()\<close> that builds \<^verbatim>\<open>final_vars\<close>.\<close>

fun final_vars_loop :: "(string \<times> pyvalue) list \<Rightarrow> variables \<Rightarrow> pyexc + variables" where
  "final_vars_loop [] fv = Inr fv"
| "final_vars_loop ((nm, v) # rest) fv =
     (if \<not> startswith nm ''_''
      then (case from_value nm v PyNone of
              Inl e \<Rightarrow> Inl e
            | Inr var \<Rightarrow> final_vars_loop rest (AList.update nm var fv))
      else final_vars_loop rest fv)"

text \<open>
  The statements of \<^verbatim>\<open>trace\<close> after the \<^verbatim>\<open>try\<close> block: the final variables are
  built first, then \<^verbatim>\<open>getvalue()\<close> is called for \<^verbatim>\<open>final_output\<close>; neither is guarded.
\<close>

definition assemble ::
  "Tracer \<Rightarrow> string \<Rightarrow> bool \<Rightarrow> string \<Rightarrow> (string \<times> pyvalue) list \<Rightarrow> trace_result" where
  "assemble self src ok msg exec_locals =
     (case final_vars_loop exec_locals [] of
        Inl e \<Rightarrow> Propagated e
      | Inr final_vars \<Rightarrow>
          (case getvalue (output_buffer self) of
             Inl e \<Rightarrow> Propagated e
           | Inr out \<Rightarrow>
               Returned \<lparr> code = src,
                          trace_steps = steps self,
                          final_output = out,
                          final_variables = final_vars,
                          success = ok,
                          error_message = msg,
                          total_lines = int (length (code_lines self)) \<rparr>))"

text \<open>
  The \<^verbatim>\<open>except Exception as e\<close> clause of \<^verbatim>\<open>trace\<close>: the synthetic step, once
  \<^verbatim>\<open>str(e)\<close> has returned the message.
\<close>

definition add_exception_step :: "Tracer \<Rightarrow> pyexc \<Rightarrow> string \<Rightarrow> Tracer" where
  "add_exception_step self e msg =
     (if steps self \<noteq> [] then
        let last_step = last (steps self) in
        self\<lparr>steps := steps self @
          [\<lparr> step_number = int (length (steps self)) + 1,
              line_number = line_number last_step,
              line_content = line_content last_step,
              step_type = EXCEPTION,
              variables = current_variables self,
              step_output = [],
              return_value = PyNone,
              exception = Some e,
              function_name = None,
              step_call_depth = 0,
              explanation = ''Exception raised: '' @ msg \<rparr>]\<rparr>
      else self)"

text \<open>The assignments at the start of \<^verbatim>\<open>trace\<close>, before \<^verbatim>\<open>compile\<close>.\<close>

definition trace_begin :: "Tracer \<Rightarrow> string \<Rightarrow> Tracer" where
  "trace_begin self0 src =
     self0\<lparr> steps := [], step_count := 0,
            code_lines := split_char (CHR 0x0A) (strip src),
            previous_variables := [], current_variables := [],
            output_buffer := StringIO, call_depth := 0, stopped := False \<rparr>"

definition trace :: "Tracer \<Rightarrow> string \<Rightarrow> host \<Rightarrow> trace_call" where
  "trace self0 src h =
     (let self = trace_begin self0 src
      in case h of
           CompileSyntaxError msg lineno \<Rightarrow>
             \<lparr> self_after = self, callback_calls = 0, exec_end = None,
               result = Returned
                 \<lparr> code = src, trace_steps = [], final_output = [], final_variables = [],
                   success = False,
                   error_message = ''SyntaxError: '' @ msg @ '' (line '' @
                     (case lineno of None \<Rightarrow> ''None'' | Some n \<Rightarrow> show_int n) @ '')'',
                   total_lines = int (length (code_lines self)) \<rparr> \<rparr>
         | CompileRaises e \<Rightarrow> \<lparr> self_after = self, callback_calls = 0, exec_end = None,
                               result = Propagated e \<rparr>
         | Compiled run \<Rightarrow>
             (case exec_traced self (run_calls run) (run_finish run) of
                (self1, n, fin) \<Rightarrow>
                  (case end_outcome fin of
                     Diverges \<Rightarrow> \<lparr> self_after = self1, callback_calls = n, exec_end = Some fin,
                                  result = NoReturn \<rparr>
                   | Completed \<Rightarrow>
                       \<lparr> self_after = self1, callback_calls = n, exec_end = Some fin,
                         result = assemble self1 src True [] (end_locals fin) \<rparr>
                   | Raised e \<Rightarrow>
                       if exc_is_Exception e then
                         (case exc_str e of
                            Inl e' \<Rightarrow>
                              \<lparr> self_after = self1, callback_calls = n, exec_end = Some fin,
                                result = Propagated e' \<rparr>
                          | Inr m \<Rightarrow>
                              let msg = exc_type e @ '': '' @ m;
                                  self2 = add_exception_step self1 e msg
                              in \<lparr> self_after = self2, callback_calls = n, exec_end = Some fin,
                                   result = assemble self2 src False msg (end_locals fin) \<rparr>)
                       else \<lparr> self_after = self1, callback_calls = n, exec_end = Some fin,
                              result = Propagated e \<rparr>)))"

text \<open>The \<^verbatim>\<open>ExecutionTrace\<close> a call returned, if it returned one.\<close>

definition returned_trace :: "trace_call \<Rightarrow> ExecutionTrace option" where
  "returned_trace c = (case result c of Returned t \<Rightarrow> Some t | _ \<Rightarrow> None)"

section \<open>Invariants of the recorder\<close>

text \<open>
  A binding that \<^verbatim>\<open>_capture_variables\<close> keeps: its name does not start with an
  underscore, and its value is not callable or carries the trace-target mark.
\<close>

definition visible_binding :: "string \<times> Variable \<Rightarrow> bool" where
  "visible_binding b =
     (\<not> startswith (fst b) ''_'' \<and>
      (\<not> callable (var_value (snd b)) \<or> has_explainflow_traced (var_value (snd b))))"

text \<open>Steps numbered 1, 2, ..., without gaps.\<close>

definition numbered :: "ExecutionStep list \<Rightarrow> bool" where
  "numbered ss = (map step_number ss = map int [1..<Suc (length ss)])"

text \<open>
  What holds of the recorded steps at every moment: they are numbered from 1, stay at or
  below the ceiling, carry no exception object, and snapshot visible bindings only, as
  does \<^verbatim>\<open>current_variables\<close>.
\<close>

definition steps_ok :: "Tracer \<Rightarrow> bool" where
  "steps_ok self =
     (numbered (steps self) \<and>
      (steps self = [] \<or> int (length (steps self)) \<le> max_steps self) \<and>
      list_all (\<lambda>s. exception s = None) (steps self) \<and>
      list_all (\<lambda>s. list_all visible_binding (variables s)) (steps self) \<and>
      list_all visible_binding (current_variables self))"

text \<open>
  What holds between two invocations of the callback: moreover, the counter is the number
  of recorded steps.
\<close>

definition recorded_ok :: "Tracer \<Rightarrow> bool" where
  "recorded_ok self = (steps_ok self \<and> step_count self = int (length (steps self)))"




text \<open>
  \<^verbatim>\<open>repr(v)\<close> returns, or raises an instance of \<^verbatim>\<open>Exception\<close>: the failures the
  \<^verbatim>\<open>try\<close> in \<^verbatim>\<open>Variable.from_value\<close> absorbs.
\<close>

definition repr_caught :: "pyvalue \<Rightarrow> bool" where
  "repr_caught v = (case py_repr v of Inr _ \<Rightarrow> True | Inl e \<Rightarrow> exc_is_Exception e)"

section \<open>Example programs\<close>

text \<open>
  Concrete values and runs on which the properties below are exercised. Each run
  is what the interpreter does with the source text named beside it.
\<close>

definition newline :: string where
  "newline = [CHR 0x0A]"

definition quoted :: "string \<Rightarrow> string" where
  "quoted s = [CHR 0x27] @ s @ [CHR 0x27]"

text \<open>The value of \<^verbatim>\<open>"a" * 200\<close> and its \<^verbatim>\<open>repr\<close>.\<close>

definition ex_long_value :: pyvalue where
  "ex_long_value = PyStr (replicate 200 (CHR ''a''))"

definition ex_long_repr :: string where
  "ex_long_repr = CHR 0x27 # replicate 200 (CHR ''a'') @ [CHR 0x27]"

text \<open>
  An instance of \<^verbatim>\<open>class Bad\<close> whose \<^verbatim>\<open>__repr__\<close> raises
  \<^verbatim>\<open>ValueError('no repr')\<close>.
\<close>

definition ex_value_error :: pyexc where
  "ex_value_error = PyExc ''ValueError'' (Inr ''no repr'') True"

definition ex_bad_repr :: pyvalue where
  "ex_bad_repr = PyObject
     \<lparr> obj_id = 1, obj_type = ''Bad'', obj_repr = Inl ex_value_error,
       obj_str = Inl ex_value_error, obj_callable = False, obj_traced = False,
       obj_truthy = True, obj_copy = CopyDistinct 2 \<rparr>"

text \<open>
  An instance of \<^verbatim>\<open>class P: pass\<close>, which has the default \<^verbatim>\<open>__eq__\<close>, and the deep
  copy that a snapshot of it holds.
\<close>

definition ex_instance :: pyvalue where
  "ex_instance = PyObject
     \<lparr> obj_id = 40, obj_type = ''P'',
       obj_repr = Inr ''<__main__.P object at 0x7f3a5c0e2a10>'',
       obj_str = Inr ''<__main__.P object at 0x7f3a5c0e2a10>'', obj_callable = False,
       obj_traced = False, obj_truthy = True, obj_copy = CopyDistinct 41 \<rparr>"

definition ex_instance_copy :: pyvalue where
  "ex_instance_copy = PyObject
     \<lparr> obj_id = 41, obj_type = ''P'',
       obj_repr = Inr ''<__main__.P object at 0x7f3a5c0e2a10>'',
       obj_str = Inr ''<__main__.P object at 0x7f3a5c0e2a10>'', obj_callable = False,
       obj_traced = False, obj_truthy = True, obj_copy = CopyDistinct 41 \<rparr>"

text \<open>
  Frames and events of module-level code run by \<^verbatim>\<open>exec\<close>: the file name is the
  tracer's, the code name is \<^verbatim>\<open><module>\<close>, and an exception raised by the trace
  function is not caught by the program.
\<close>

definition uncaught :: "(string \<times> pyvalue) list \<Rightarrow> pyexc \<Rightarrow> run_end" where
  "uncaught ls e = \<lparr> end_stream = [], end_outcome = Raised e, end_locals = ls \<rparr>"

definition module_call ::
  "trace_event \<Rightarrow> int \<Rightarrow> (string \<times> pyvalue) list \<Rightarrow> pyvalue \<Rightarrow> stream_op list \<Rightarrow> callback_call" where
  "module_call ev ln ls arg ops =
     \<lparr> cb_frame = \<lparr> co_filename = ''<explainflow>'', co_name = ''<module>'',
                    f_lineno = ln, f_locals = ls \<rparr>,
       cb_event = ev, cb_arg = arg, cb_after = ops, cb_on_fault = uncaught ls \<rparr>"

text \<open>
  An opaque object with the given identity, type name, \<^verbatim>\<open>repr\<close> and \<^verbatim>\<open>str\<close>, copied
  as itself.
\<close>

definition opaque :: "nat \<Rightarrow> string \<Rightarrow> string \<Rightarrow> pyexc + string \<Rightarrow> bool \<Rightarrow> bool \<Rightarrow> pyvalue" where
  "opaque i ty r s c t = PyObject
     \<lparr> obj_id = i, obj_type = ty, obj_repr = Inr r, obj_str = s, obj_callable = c,
       obj_traced = t, obj_truthy = True, obj_copy = CopyEqual \<rparr>"

text \<open>
  The argument of an \<^verbatim>\<open>'exception'\<close> event: the tuple of the exception's class, the
  exception and a traceback object, given the \<^verbatim>\<open>repr\<close> of the class, the \<^verbatim>\<open>repr\<close> of
  the exception, and the exception.
\<close>

definition exc_info :: "string \<Rightarrow> string \<Rightarrow> pyexc \<Rightarrow> pyvalue" where
  "exc_info class_repr exc_repr e = PyTuple
     [opaque 10 ''type'' class_repr (Inr class_repr) True False,
      opaque 11 (exc_type e) exc_repr (exc_str e) False False,
      opaque 12 ''traceback'' ''<traceback object at 0x7f3a5c0d2e40>''
        (Inr ''<traceback object at 0x7f3a5c0d2e40>'') False False]"

text \<open>
  The program \<^verbatim>\<open>x = None\<close>, \<^verbatim>\<open>x = 5\<close>, \<^verbatim>\<open>y = 0\<close> (three lines).
\<close>

definition ex_none_src :: string where
  "ex_none_src = join newline [''x = None'', ''x = 5'', ''y = 0'']"

definition ex_none_run :: program_run where
  "ex_none_run =
     \<lparr> run_calls =
         [module_call EvCall 1 [] PyNone [],
          module_call EvLine 1 [] PyNone [],
          module_call EvLine 2 [(''x'', PyNone)] PyNone [],
          module_call EvLine 3 [(''x'', PyInt 5)] PyNone [],
          module_call EvReturn 3 [(''x'', PyInt 5), (''y'', PyInt 0)] PyNone []],
       run_finish = \<lparr> end_stream = [], end_outcome = Completed,
                      end_locals = [(''x'', PyInt 5), (''y'', PyInt 0)] \<rparr> \<rparr>"

text \<open>The program \<^verbatim>\<open>x = 1/0\<close>.\<close>

definition ex_zero_division :: pyexc where
  "ex_zero_division = PyExc ''ZeroDivisionError'' (Inr ''division by zero'') True"

definition ex_zero_division_info :: pyvalue where
  "ex_zero_division_info =
     exc_info (''<class '' @ quoted ''ZeroDivisionError'' @ ''>'')
       (''ZeroDivisionError('' @ quoted ''division by zero'' @ '')'') ex_zero_division"

definition ex_zerodiv_run :: program_run where
  "ex_zerodiv_run =
     \<lparr> run_calls =
         [module_call EvCall 1 [] PyNone [],
          module_call EvLine 1 [] PyNone [],
          module_call EvException 1 [] ex_zero_division_info [],
          module_call EvReturn 1 [] PyNone []],
       run_finish = \<lparr> end_stream = [], end_outcome = Raised ex_zero_division,
                      end_locals = [] \<rparr> \<rparr>"












text \<open>
  The source \<^verbatim>\<open>x = 1\<close> followed by a line holding a NUL character, for which
  \<^verbatim>\<open>compile\<close> raises \<^verbatim>\<open>ValueError\<close> (CPython 3.11).
\<close>

definition ex_null_byte_src :: string where
  "ex_null_byte_src = ''x = 1'' @ newline @ [CHR 0x00]"

definition ex_null_byte_error :: pyexc where
  "ex_null_byte_error =
     PyExc ''ValueError'' (Inr ''source code string cannot contain null bytes'') True"










text \<open>Snapshots used to exercise \<^verbatim>\<open>_generate_explanation\<close>.\<close>

definition ex_x_changed :: Variable where
  "ex_x_changed = \<lparr> name = ''x'', var_value = PyInt 7, type_name = ''int'', repr_value = ''7'',
                     changed = True \<rparr>"

definition ex_y_unchanged :: Variable where
  "ex_y_unchanged = \<lparr> name = ''y'', var_value = PyInt 0, type_name = ''int'', repr_value = ''0'',
                       changed = False \<rparr>"

text \<open>The trace returned when \<^verbatim>\<open>compile\<close> rejects \<^verbatim>\<open>x = \<close> at line 1.\<close>

definition ex_syntax_error_trace :: ExecutionTrace where
  "ex_syntax_error_trace =
     \<lparr> code = ''x = '', trace_steps = [], final_output = [], final_variables = [],
       success = False, error_message = ''SyntaxError: invalid syntax (line 1)'',
       total_lines = 1 \<rparr>"

section \<open>Properties\<close>

subsection \<open>Snapshots\<close>

lemma ex_long_repr_eval: "py_repr ex_long_value = Inr ex_long_repr"
  by code_simp

lemma ex_long_repr_length: "length ex_long_repr = 202"
  by (simp add: ex_long_repr_def)

lemma ex_bad_repr_eval: "py_repr ex_bad_repr = Inl ex_value_error"
  by (simp add: ex_bad_repr_def)

lemma deepcopy_keeps_callable:
  "deepcopy v = Some c \<Longrightarrow>
     callable c = callable v \<and> has_explainflow_traced c = has_explainflow_traced v"
  by (cases v)
     (auto simp: callable_def has_explainflow_traced_def split: copy_result.splits)

lemma from_value_fields:
  assumes "from_value nm v p = Inr var"
  shows "name var = nm"
    and "callable (var_value var) = callable v"
    and "has_explainflow_traced (var_value var) = has_explainflow_traced v"
    and "changed var = (p \<noteq> PyNone \<and> py_ne p v)"
proof -
  have c: "callable (case deepcopy v of Some c \<Rightarrow> c | None \<Rightarrow> v) = callable v \<and>
           has_explainflow_traced (case deepcopy v of Some c \<Rightarrow> c | None \<Rightarrow> v)
             = has_explainflow_traced v"
    using deepcopy_keeps_callable[of v] by (cases "deepcopy v") auto
  from assms show "name var = nm" "changed var = (p \<noteq> PyNone \<and> py_ne p v)"
    by (auto simp: from_value_def split: sum.splits if_splits)
  from assms c show "callable (var_value var) = callable v"
    "has_explainflow_traced (var_value var) = has_explainflow_traced v"
    by (auto simp: from_value_def is_copyable_def split: sum.splits if_splits option.splits)
qed

text \<open>
  A snapshot holds a deep copy. For an instance with the default \<^verbatim>\<open>__eq__\<close> the copy is
  a distinct object, so the unchanged live instance compares unequal to the copy kept
  from the step before and is reported as changed.
\<close>

lemma instance_snapshot_is_a_copy:
  "map_sum id var_value (from_value ''p'' ex_instance PyNone) = Inr ex_instance_copy"
  by code_simp

lemma unchanged_instance_reported_changed:
  "map_sum id changed (from_value ''p'' ex_instance ex_instance_copy) = Inr True"
  by code_simp

subsection \<open>The recorder keeps its invariants\<close>

lemma set_update_subset: "set (AList.update k v al) \<subseteq> insert (k, v) (set al)"
  by (induction al) auto

lemma capture_loop_visible:
  "capture_loop prev ls vars = Inr vars' \<Longrightarrow> list_all visible_binding vars
     \<Longrightarrow> list_all visible_binding vars'"
proof (induction ls arbitrary: vars)
  case Nil
  then show ?case by simp
next
  case (Cons b rest)
  obtain nm v where b: "b = (nm, v)" by (cases b)
  show ?case
  proof (cases "startswith nm ''_'' \<or> (callable v \<and> \<not> has_explainflow_traced v)")
    case True
    then have "capture_loop prev rest vars = Inr vars'"
      using Cons.prems(1) b by (auto split: if_splits)
    then show ?thesis using Cons.IH Cons.prems(2) by blast
  next
    case False
    with Cons.prems(1) b obtain var where fv: "from_value nm v (dict_get prev nm) = Inr var"
      and rest: "capture_loop prev rest (AList.update nm var vars) = Inr vars'"
      by (auto split: sum.splits if_splits)
    have "visible_binding (nm, var)"
      using False from_value_fields(2,3)[OF fv] by (auto simp: visible_binding_def)
    with Cons.prems(2) have "list_all visible_binding (AList.update nm var vars)"
      using set_update_subset[of nm var vars] by (auto simp: list_all_iff)
    with Cons.IH rest show ?thesis by blast
  qed
qed

lemma capture_loop_changed:
  "capture_loop prev ls vars = Inr vars' \<Longrightarrow>
   \<forall>b \<in> set vars. \<exists>v. (fst b, v) \<in> set ls0 \<and> changed (snd b) =
      (dict_get prev (fst b) \<noteq> PyNone \<and> py_ne (dict_get prev (fst b)) v) \<Longrightarrow>
   set ls \<subseteq> set ls0 \<Longrightarrow>
   \<forall>b \<in> set vars'. \<exists>v. (fst b, v) \<in> set ls0 \<and> changed (snd b) =
      (dict_get prev (fst b) \<noteq> PyNone \<and> py_ne (dict_get prev (fst b)) v)"
proof (induction ls arbitrary: vars)
  case Nil
  then show ?case by simp
next
  case (Cons b rest)
  obtain nm v where b: "b = (nm, v)" by (cases b)
  have sub: "set rest \<subseteq> set ls0" and mem: "(nm, v) \<in> set ls0"
    using Cons.prems(3) b by auto
  show ?case
  proof (cases "startswith nm ''_'' \<or> (callable v \<and> \<not> has_explainflow_traced v)")
    case True
    then have "capture_loop prev rest vars = Inr vars'"
      using Cons.prems(1) b by (auto split: if_splits)
    then show ?thesis using Cons.IH Cons.prems(2) sub by blast
  next
    case False
    with Cons.prems(1) b obtain var where fv: "from_value nm v (dict_get prev nm) = Inr var"
      and rest: "capture_loop prev rest (AList.update nm var vars) = Inr vars'"
      by (auto split: sum.splits if_splits)
    have "changed var = (dict_get prev nm \<noteq> PyNone \<and> py_ne (dict_get prev nm) v)"
      using from_value_fields(4)[OF fv] by simp
    with Cons.prems(2) mem have
      "\<forall>b \<in> set (AList.update nm var vars). \<exists>v. (fst b, v) \<in> set ls0 \<and> changed (snd b) =
         (dict_get prev (fst b) \<noteq> PyNone \<and> py_ne (dict_get prev (fst b)) v)"
      using set_update_subset[of nm var vars] by fastforce
    with Cons.IH rest sub show ?thesis by blast
  qed
qed

text \<open>
  What the code computes for the flag \<open>changed\<close> of each captured binding: the name had
  a value other than \<^verbatim>\<open>None\<close> in the dict kept from the previous capture, and that value
  is unequal to a live value of the name.
\<close>

lemma captured_changed_flag:
  assumes "capture_variables self fr = (self', Inr vars)" and "(nm, var) \<in> set vars"
  shows "\<exists>v. (nm, v) \<in> set (f_locals fr) \<and>
           changed var =
             (dict_get (previous_variables self) nm \<noteq> PyNone \<and>
              py_ne (dict_get (previous_variables self) nm) v)"
proof -
  from assms(1) have "capture_loop (previous_variables self) (f_locals fr) [] = Inr vars"
    by (auto simp: capture_variables_def split: sum.splits)
  from capture_loop_changed[OF this, of "f_locals fr"] assms(2) show ?thesis by fastforce
qed

lemma numbered_snoc:
  "numbered ss \<Longrightarrow> step_number s = int (length ss) + 1 \<Longrightarrow> numbered (ss @ [s])"
  by (simp add: numbered_def)

text \<open>
  One invocation of the callback never touches the buffer, the ceiling or the file name;
  it either leaves the steps as they are, or appends exactly one step and answers "go on".
\<close>

lemma trace_callback_frame:
  assumes "trace_callback self fr ev arg = (self', r)"
  shows "output_buffer self' = output_buffer self \<and> max_steps self' = max_steps self \<and>
         traced_filename self' = traced_filename self"
proof (cases "stopped self \<or> max_steps self \<le> step_count self")
  case True
  with assms show ?thesis by (auto simp: trace_callback_def)
next
  case ns: False
  show ?thesis
  proof (cases "co_filename fr \<noteq> traced_filename self")
    case True
    with ns assms show ?thesis by (auto simp: trace_callback_def)
  next
    case inf: False
    with ns assms show ?thesis
      by (cases ev)
         (auto simp: trace_callback_def capture_variables_def Let_def split: sum.splits)
  qed
qed

lemma trace_callback_shape:
  assumes "trace_callback self fr ev arg = (self', r)"
  shows "(steps self' = steps self \<and> current_variables self' = current_variables self \<and>
          ((\<exists>sig. r = Inr sig) \<longrightarrow> step_count self' = step_count self))
       \<or> (\<exists>s. steps self' = steps self @ [s] \<and> step_count self' = step_count self + 1 \<and>
            current_variables self' = variables s \<and>
            capture_loop (previous_variables self) (f_locals fr) [] = Inr (variables s) \<and>
            step_number s = step_count self + 1 \<and>
            getvalue (output_buffer self) = Inr (step_output s) \<and>
            exception s = None \<and> step_count self < max_steps self \<and> r = Inr KeepTracing)"
proof (cases "stopped self \<or> max_steps self \<le> step_count self")
  case True
  with assms show ?thesis by (auto simp: trace_callback_def)
next
  case ns: False
  show ?thesis
  proof (cases "co_filename fr \<noteq> traced_filename self")
    case True
    with ns assms show ?thesis by (auto simp: trace_callback_def)
  next
    case inf: False
    show ?thesis
    proof (cases "capture_loop (previous_variables self) (f_locals fr) []")
      case (Inl e)
      with ns inf assms show ?thesis
        by (cases ev) (auto simp: trace_callback_def capture_variables_def Let_def)
    next
      case (Inr vars)
      with ns inf assms show ?thesis
        by (cases ev)
           (auto simp: trace_callback_def capture_variables_def Let_def split: sum.splits)
    qed
  qed
qed

lemma steps_ok_buffer [simp]: "steps_ok (self\<lparr>output_buffer := b\<rparr>) = steps_ok self"
  by (simp add: steps_ok_def)

lemma recorded_ok_buffer [simp]: "recorded_ok (self\<lparr>output_buffer := b\<rparr>) = recorded_ok self"
  by (simp add: recorded_ok_def)

lemma steps_ok_callback:
  assumes cb: "trace_callback self fr ev arg = (self', r)" and ok: "recorded_ok self"
  shows "steps_ok self' \<and> ((\<exists>sig. r = Inr sig) \<longrightarrow> recorded_ok self')"
  using trace_callback_shape[OF cb]
proof (elim disjE exE conjE)
  assume "steps self' = steps self" "current_variables self' = current_variables self"
    "(\<exists>sig. r = Inr sig) \<longrightarrow> step_count self' = step_count self"
  with ok trace_callback_frame[OF cb] show ?thesis
    by (auto simp: recorded_ok_def steps_ok_def)
next
  fix s
  assume st: "steps self' = steps self @ [s]" "step_count self' = step_count self + 1"
    "current_variables self' = variables s"
    "capture_loop (previous_variables self) (f_locals fr) [] = Inr (variables s)"
    "step_number s = step_count self + 1"
    "exception s = None" "step_count self < max_steps self"
  have vis: "list_all visible_binding (variables s)"
    using capture_loop_visible[OF st(4)] by simp
  have num: "numbered (steps self @ [s])"
    using ok st(5) by (intro numbered_snoc) (auto simp: recorded_ok_def steps_ok_def)
  from ok st vis num trace_callback_frame[OF cb] show ?thesis
    by (simp add: recorded_ok_def steps_ok_def)
qed

lemma exec_traced_steps_ok:
  "exec_traced self cs fin = (self', n, fin') \<Longrightarrow> recorded_ok self \<Longrightarrow> steps_ok self'"
proof (induction cs arbitrary: self n)
  case Nil
  then show ?case by (auto simp: recorded_ok_def)
next
  case (Cons c cs)
  obtain self1 r where cb: "trace_callback self (cb_frame c) (cb_event c) (cb_arg c) = (self1, r)"
    by (cases "trace_callback self (cb_frame c) (cb_event c) (cb_arg c)")
  note ok1 = steps_ok_callback[OF cb Cons.prems(2)]
  show ?case
  proof (cases r)
    case (Inl e)
    with Cons.prems(1) cb ok1 show ?thesis by auto
  next
    case (Inr sig)
    with Cons.prems(1) cb obtain m where
      "exec_traced (self1\<lparr>output_buffer := apply_ops (output_buffer self1) (cb_after c)\<rparr>)
         cs fin = (self', m, fin')"
      by (auto split: prod.splits)
    moreover from ok1 Inr
    have "recorded_ok (self1\<lparr>output_buffer := apply_ops (output_buffer self1) (cb_after c)\<rparr>)"
      by simp
    ultimately show ?thesis using Cons.IH by blast
  qed
qed

lemma recorded_ok_begin: "recorded_ok (trace_begin self0 src)"
  by (simp add: recorded_ok_def steps_ok_def trace_begin_def numbered_def)

lemma exec_traced_begin_ok:
  "exec_traced (trace_begin self0 src) cs fin = (self1, n, fin') \<Longrightarrow> steps_ok self1"
  using exec_traced_steps_ok recorded_ok_begin by blast

lemma exec_traced_steps_prefix:
  "exec_traced self cs fin = (self', n, fin') \<Longrightarrow>
     prefix (steps self) (steps self') \<and> max_steps self' = max_steps self"
proof (induction cs arbitrary: self n)
  case Nil
  then show ?case by auto
next
  case (Cons c cs)
  obtain self1 r where cb: "trace_callback self (cb_frame c) (cb_event c) (cb_arg c) = (self1, r)"
    by (cases "trace_callback self (cb_frame c) (cb_event c) (cb_arg c)")
  have p1: "prefix (steps self) (steps self1) \<and> max_steps self1 = max_steps self"
    using trace_callback_shape[OF cb] trace_callback_frame[OF cb] by auto
  show ?case
  proof (cases r)
    case (Inl e)
    with Cons.prems cb p1 show ?thesis by auto
  next
    case (Inr sig)
    with Cons.prems cb obtain m where
      "exec_traced (self1\<lparr>output_buffer := apply_ops (output_buffer self1) (cb_after c)\<rparr>)
         cs fin = (self', m, fin')"
      by (auto split: prod.splits)
    from Cons.IH[OF this] p1 show ?thesis by (auto intro: prefix_order.trans)
  qed
qed



subsection \<open>Outputs while the program only writes\<close>






subsection \<open>The shape of what \<^verbatim>\<open>trace\<close> gives back\<close>

lemma final_vars_loop_ok:
  "list_all (\<lambda>b. repr_caught (snd b)) ls \<Longrightarrow> \<exists>fv'. final_vars_loop ls fv = Inr fv'"
proof (induction ls arbitrary: fv)
  case Nil
  then show ?case by simp
next
  case (Cons b ls)
  obtain nm v where b: "b = (nm, v)" by (cases b)
  from Cons.prems b have "\<exists>var. from_value nm v PyNone = Inr var"
    by (auto simp: from_value_def repr_caught_def split: sum.splits)
  with Cons b show ?case by auto
qed

lemma trace_compiled_unfold:
  assumes "exec_traced (trace_begin self0 src) (run_calls run) (run_finish run) = (self1, n, fin)"
  shows "exec_end (trace self0 src (Compiled run)) = Some fin"
    and "callback_calls (trace self0 src (Compiled run)) = n"
    and "end_outcome fin = Completed \<Longrightarrow>
           result (trace self0 src (Compiled run)) = assemble self1 src True [] (end_locals fin) \<and>
           self_after (trace self0 src (Compiled run)) = self1"
    and "end_outcome fin = Raised e \<Longrightarrow> exc_is_Exception e \<Longrightarrow> exc_str e = Inr m \<Longrightarrow>
           result (trace self0 src (Compiled run)) =
             assemble (add_exception_step self1 e (exc_type e @ '': '' @ m)) src False
               (exc_type e @ '': '' @ m) (end_locals fin) \<and>
           self_after (trace self0 src (Compiled run))
             = add_exception_step self1 e (exc_type e @ '': '' @ m)"
    and "end_outcome fin = Raised e \<Longrightarrow> exc_is_Exception e \<Longrightarrow> exc_str e = Inl e' \<Longrightarrow>
           result (trace self0 src (Compiled run)) = Propagated e'"
    and "end_outcome fin = Raised e \<Longrightarrow> \<not> exc_is_Exception e \<Longrightarrow>
           result (trace self0 src (Compiled run)) = Propagated e"
    and "end_outcome fin = Diverges \<Longrightarrow> result (trace self0 src (Compiled run)) = NoReturn"
  using assms by (auto simp: trace_def Let_def split: outcome.splits sum.splits)

lemma assemble_Returned:
  "assemble self src ok msg ls = Returned t \<Longrightarrow>
     trace_steps t = steps self \<and> getvalue (output_buffer self) = Inr (final_output t) \<and>
     success t = ok \<and> error_message t = msg"
  by (auto simp: assemble_def split: sum.splits)

lemma add_exception_step_steps:
  "steps (add_exception_step self e msg) =
     (if steps self = [] then []
      else steps self @
        [\<lparr> step_number = int (length (steps self)) + 1,
            line_number = line_number (last (steps self)),
            line_content = line_content (last (steps self)),
            step_type = EXCEPTION,
            variables = current_variables self,
            step_output = [], return_value = PyNone, exception = Some e,
            function_name = None, step_call_depth = 0,
            explanation = ''Exception raised: '' @ msg \<rparr>])"
  by (simp add: add_exception_step_def Let_def)

lemma add_exception_step_buffer:
  "output_buffer (add_exception_step self e msg) = output_buffer self"
  by (simp add: add_exception_step_def Let_def)

text \<open>The shape of every returned trace.\<close>

lemma trace_Returned_cases:
  assumes "result (trace self0 src h) = Returned t"
  shows "(\<exists>msg ln. h = CompileSyntaxError msg ln \<and> trace_steps t = [])
       \<or> (\<exists>run self1 n fin. h = Compiled run \<and>
             exec_traced (trace_begin self0 src) (run_calls run) (run_finish run) = (self1, n, fin) \<and>
             getvalue (output_buffer self1) = Inr (final_output t) \<and>
             ((end_outcome fin = Completed \<and> trace_steps t = steps self1 \<and> success t \<and>
               error_message t = [])
              \<or> (\<exists>e m. end_outcome fin = Raised e \<and> exc_is_Exception e \<and> exc_str e = Inr m \<and>
                    \<not> success t \<and> error_message t = exc_type e @ '': '' @ m \<and>
                    trace_steps t =
                      steps (add_exception_step self1 e (exc_type e @ '': '' @ m)))))"
proof (cases h)
  case (CompileSyntaxError msg ln)
  with assms show ?thesis by (auto simp: trace_def Let_def)
next
  case (CompileRaises e)
  with assms show ?thesis by (auto simp: trace_def Let_def)
next
  case (Compiled run)
  obtain self1 n fin where
    ex: "exec_traced (trace_begin self0 src) (run_calls run) (run_finish run) = (self1, n, fin)"
    by (cases "exec_traced (trace_begin self0 src) (run_calls run) (run_finish run)")
  note u = trace_compiled_unfold[OF ex]
  show ?thesis
  proof (cases "end_outcome fin")
    case Completed
    with assms Compiled u(3) assemble_Returned[of self1 src True "[]" "end_locals fin" t] ex
    show ?thesis by auto
  next
    case (Raised e)
    show ?thesis
    proof (cases "exc_is_Exception e")
      case True
      show ?thesis
      proof (cases "exc_str e")
        case (Inl e')
        with assms Compiled u(5)[OF Raised True] show ?thesis by simp
      next
        case (Inr m)
        with assms Compiled u(4)[OF Raised True Inr] Raised True ex
          assemble_Returned[of "add_exception_step self1 e (exc_type e @ '': '' @ m)"
            src False "exc_type e @ '': '' @ m" "end_locals fin" t]
        show ?thesis by (auto simp: add_exception_step_buffer)
      qed
    next
      case False
      with assms Compiled u(6)[OF Raised False] show ?thesis by simp
    qed
  next
    case Diverges
    with assms Compiled u(7) show ?thesis by simp
  qed
qed

lemma callback_steps_within_ceiling:
  assumes "exec_traced (trace_begin self0 src) cs fin = (self1, n, fin')"
  shows "steps self1 = [] \<or> int (length (steps self1)) \<le> max_steps self0"
proof -
  have "max_steps self1 = max_steps self0"
    using exec_traced_steps_prefix[OF assms] by (simp add: trace_begin_def)
  with exec_traced_begin_ok[OF assms] show ?thesis by (auto simp: steps_ok_def)
qed

lemma trace_steps_bound:
  assumes "result (trace self0 src h) = Returned t"
  shows "trace_steps t = [] \<or>
         int (length (trace_steps t)) \<le> max_steps self0 + (if success t then 0 else 1)"
  using trace_Returned_cases[OF assms]
proof (elim disjE exE conjE)
  fix msg ln assume "trace_steps t = []"
  then show ?thesis by simp
next
  fix run self1 n fin
  assume ex: "exec_traced (trace_begin self0 src) (run_calls run) (run_finish run) = (self1, n, fin)"
    and "trace_steps t = steps self1" "success t"
  with callback_steps_within_ceiling[OF ex] show ?thesis by auto
next
  fix run self1 n fin e m
  assume ex: "exec_traced (trace_begin self0 src) (run_calls run) (run_finish run) = (self1, n, fin)"
    and "trace_steps t = steps (add_exception_step self1 e (exc_type e @ '': '' @ m))"
    "\<not> success t"
  with callback_steps_within_ceiling[OF ex] show ?thesis
    by (auto simp: add_exception_step_steps)
qed

lemma contains_middle: "contains m (a @ m @ b)"
  by (auto simp: contains_def sublist_def)

subsection \<open>The example traces\<close>













subsection \<open>The printable representation of a snapshot\<close>

text \<open>
  Claim C5, as the code has it. When \<^verbatim>\<open>repr(value)\<close> is longer than 100 characters,
  \<open>repr_value\<close> is its first 97 characters followed by the three-character marker
  \<^verbatim>\<open>...\<close>, 100 characters in all; when \<^verbatim>\<open>repr(value)\<close> raises an instance of
  \<^verbatim>\<open>Exception\<close>, \<open>repr_value\<close> is the fixed text \<^verbatim>\<open><repr error>\<close>.
\<close>

theorem from_value_truncates_to_97:
  "(py_repr v = Inr r \<and> length r > 100 \<longrightarrow>
      (\<exists>var. from_value nm v prev = Inr var \<and> repr_value var = take 97 r @ ''...'' \<and>
             length (repr_value var) = 100))
   \<and> (py_repr v = Inl e \<and> exc_is_Exception e \<longrightarrow>
      (\<exists>var. from_value nm v prev = Inr var \<and> repr_value var = ''<repr error>''))"
  by (simp add: from_value_def)

theorem from_value_truncates_to_97_witness:
  "(py_repr ex_long_value = Inr ex_long_repr \<and> length ex_long_repr > 100 \<and>
    (\<exists>var. from_value ''long'' ex_long_value PyNone = Inr var \<and>
           repr_value var = take 97 ex_long_repr @ ''...'' \<and> length (repr_value var) = 100))
   \<and> (py_repr ex_bad_repr = Inl ex_value_error \<and> exc_is_Exception ex_value_error \<and>
    (\<exists>var. from_value ''b'' ex_bad_repr PyNone = Inr var \<and> repr_value var = ''<repr error>''))"
  using from_value_truncates_to_97
          [where v = ex_long_value and r = ex_long_repr and nm = "''long''" and prev = PyNone]
        from_value_truncates_to_97
          [where v = ex_bad_repr and e = ex_value_error and nm = "''b''" and prev = PyNone]
        ex_long_repr_eval ex_long_repr_length ex_bad_repr_eval
  by (simp add: ex_value_error_def)

text \<open>
  Claim C5 as stated fails on \<^verbatim>\<open>Variable.from_value("long", "a" * 200)\<close>: the
  rendering has 202 characters, and \<open>repr_value\<close> keeps 97 of them before the marker,
  not 100.
\<close>

theorem from_value_long_repr_counterexample:
  "py_repr ex_long_value = Inr ex_long_repr \<and> length ex_long_repr = 202 \<and>
   map_sum id repr_value (from_value ''long'' ex_long_value PyNone)
     = Inr (take 97 ex_long_repr @ ''...'') \<and>
   map_sum id repr_value (from_value ''long'' ex_long_value PyNone)
     \<noteq> Inr (take 100 ex_long_repr @ ''...'')"
  using ex_long_repr_eval ex_long_repr_length
  by (simp add: from_value_def ex_long_repr_def)

subsection \<open>Step numbers\<close>



subsection \<open>Bindings kept in a step\<close>



subsection \<open>Captured output\<close>




subsection \<open>Runtime failure\<close>



subsection \<open>The changed flag\<close>

text \<open>
  Claim C1, at the program \<^verbatim>\<open>x = None\<close>, \<^verbatim>\<open>x = 5\<close>, \<^verbatim>\<open>y = 0\<close>. The steps of the
  returned trace are the tracer's recorded steps. In the step recorded for line 2, \<open>x\<close> is
  bound to \<^verbatim>\<open>None\<close>; in the next step, recorded for line 3, \<open>x\<close> is bound to 5, which
  is unequal to \<^verbatim>\<open>None\<close>, yet the flag \<open>changed\<close> is false:
  \<^verbatim>\<open>previous_variables.get(name)\<close> returns \<^verbatim>\<open>None\<close> both for a missing name and for a
  name bound to \<^verbatim>\<open>None\<close>, and \<^verbatim>\<open>from_value\<close> takes \<^verbatim>\<open>None\<close> for "no previous value"
  (see \<open>captured_changed_flag\<close> for what the code computes in general).
\<close>

theorem changed_flag_after_none:
  "map_option trace_steps
     (returned_trace (trace (Tracer_init 1000) ex_none_src (Compiled ex_none_run)))
     = Some (steps (self_after (trace (Tracer_init 1000) ex_none_src (Compiled ex_none_run))))
   \<and> map_of (variables
        (steps (self_after (trace (Tracer_init 1000) ex_none_src (Compiled ex_none_run))) ! 2))
        ''x''
     = Some \<lparr> name = ''x'', var_value = PyNone, type_name = ''NoneType'',
              repr_value = ''None'', changed = False \<rparr>
   \<and> map_of (variables
        (steps (self_after (trace (Tracer_init 1000) ex_none_src (Compiled ex_none_run))) ! 3))
        ''x''
     = Some \<lparr> name = ''x'', var_value = PyInt 5, type_name = ''int'',
              repr_value = ''5'', changed = False \<rparr>
   \<and> py_ne PyNone (PyInt 5)"
  by code_simp

subsection \<open>The step ceiling\<close>

text \<open>
  Claim C2, at \<^verbatim>\<open>Tracer(max_steps=1).trace("x = 1/0")\<close>. The callback records the
  module's \<^verbatim>\<open>'call'\<close> event and then stops at the ceiling; the division fails afterwards,
  and the \<^verbatim>\<open>except\<close> clause of \<^verbatim>\<open>trace\<close> appends the synthetic EXCEPTION step without
  looking at the ceiling: the returned trace has two steps. (The callback alone never
  exceeds the ceiling, \<open>callback_steps_within_ceiling\<close>, and a returned trace has at most
  one step more, \<open>trace_steps_bound\<close>.)
\<close>

theorem exception_step_exceeds_ceiling:
  "max_steps (Tracer_init 1) = 1 \<and>
   map_option (length \<circ> trace_steps)
     (returned_trace (trace (Tracer_init 1) ''x = 1/0'' (Compiled ex_zerodiv_run))) = Some 2 \<and>
   map_option (map step_type \<circ> trace_steps)
     (returned_trace (trace (Tracer_init 1) ''x = 1/0'' (Compiled ex_zerodiv_run)))
     = Some [CALL, EXCEPTION]"
  by code_simp

subsection \<open>What \<^verbatim>\<open>trace\<close> returns and what it lets through\<close>




subsection \<open>Compile failure\<close>

text \<open>
  Claim C7, as the code has it. When \<^verbatim>\<open>compile\<close> raises \<^verbatim>\<open>SyntaxError\<close>, \<^verbatim>\<open>trace\<close>
  returns a trace with no steps and \<open>success\<close> false, whose \<open>error_message\<close> is
  \<^verbatim>\<open>SyntaxError: \<close>, the compiler's message, and in parentheses the line number the
  compiler reported (the text \<^verbatim>\<open>None\<close> when it reported none), so that it contains both;
  the program is never executed and the callback is never invoked. When \<^verbatim>\<open>compile\<close>
  raises any other exception, no trace is returned: the exception goes through to the
  caller of \<^verbatim>\<open>trace\<close>, and again the callback is never invoked.
\<close>

theorem compile_failure_trace:
  "(\<exists>t. result (trace self0 src (CompileSyntaxError msg lineno)) = Returned t \<and>
        trace_steps t = [] \<and> \<not> success t \<and>
        error_message t = ''SyntaxError: '' @ msg @ '' (line '' @
           (case lineno of None \<Rightarrow> ''None'' | Some n \<Rightarrow> show_int n) @ '')'' \<and>
        contains msg (error_message t) \<and>
        contains (case lineno of None \<Rightarrow> ''None'' | Some n \<Rightarrow> show_int n) (error_message t))
   \<and> callback_calls (trace self0 src (CompileSyntaxError msg lineno)) = 0
   \<and> exec_end (trace self0 src (CompileSyntaxError msg lineno)) = None
   \<and> result (trace self0 src (CompileRaises e)) = Propagated e
   \<and> callback_calls (trace self0 src (CompileRaises e)) = 0
   \<and> exec_end (trace self0 src (CompileRaises e)) = None"
proof -
  have 1: "contains msg (''SyntaxError: '' @ msg @ '' (line '' @ x @ '')'')" for x
    by (rule contains_middle)
  have 2: "contains x (''SyntaxError: '' @ msg @ '' (line '' @ x @ '')'')" for x
    using contains_middle[of x "''SyntaxError: '' @ msg @ '' (line ''" "'')''"] by simp
  show ?thesis
    using 1 2 by (auto simp: trace_def Let_def simp del: append_assoc)
qed

theorem compile_failure_trace_witness:
  "result (trace (Tracer_init 1000) ''x = '' (CompileSyntaxError ''invalid syntax'' (Some 1)))
     = Returned ex_syntax_error_trace
   \<and> trace_steps ex_syntax_error_trace = [] \<and> \<not> success ex_syntax_error_trace
   \<and> error_message ex_syntax_error_trace = ''SyntaxError: invalid syntax (line 1)''
   \<and> contains ''invalid syntax'' (error_message ex_syntax_error_trace)
   \<and> contains ''1'' (error_message ex_syntax_error_trace)
   \<and> callback_calls (trace (Tracer_init 1000) ''x = ''
        (CompileSyntaxError ''invalid syntax'' (Some 1))) = 0
   \<and> result (trace (Tracer_init 1000) ex_null_byte_src (CompileRaises ex_null_byte_error))
       = Propagated ex_null_byte_error"
proof -
  have s: "show_int 1 = ''1''" by code_simp
  have r: "result (trace (Tracer_init 1000) ''x = '' (CompileSyntaxError ''invalid syntax'' (Some 1)))
     = Returned ex_syntax_error_trace"
    by code_simp
  from compile_failure_trace
         [of "Tracer_init 1000" "''x = ''" "''invalid syntax''" "Some 1" ex_null_byte_error]
       compile_failure_trace
         [of "Tracer_init 1000" ex_null_byte_src "''invalid syntax''" "Some 1"
             ex_null_byte_error]
  show ?thesis using r by (auto simp: s ex_syntax_error_trace_def)
qed

text \<open>
  Claim C7 as stated fails on the source \<^verbatim>\<open>x = 1\<close> followed by a line holding a NUL
  character: it does not compile, \<^verbatim>\<open>compile\<close> raises \<^verbatim>\<open>ValueError\<close>, which the
  \<^verbatim>\<open>except SyntaxError\<close> clause does not catch, and no trace is returned.
\<close>

theorem null_byte_source_counterexample:
  "result (trace (Tracer_init 1000) ex_null_byte_src (CompileRaises ex_null_byte_error))
     = Propagated ex_null_byte_error
   \<and> returned_trace (trace (Tracer_init 1000) ex_null_byte_src (CompileRaises ex_null_byte_error))
     = None"
  by code_simp

subsection \<open>Explanation texts\<close>

text \<open>
  Claim C8. For an ASSIGNMENT step in which exactly one snapshot has the flag \<open>changed\<close>,
  the explanation is \<^verbatim>\<open>Set <name> to <repr_value>\<close> for that snapshot; for a RETURN step
  whose argument is not \<^verbatim>\<open>None\<close> it is \<^verbatim>\<open>Returning: \<close> followed by \<^verbatim>\<open>repr\<close> of the
  argument (when \<^verbatim>\<open>repr\<close> returns); for a CONDITION step it is
  \<^verbatim>\<open>Evaluating condition: \<close> followed by the stripped line.
\<close>

theorem explanation_texts:
  "(filter changed (map snd vars) = [var] \<longrightarrow>
      generate_explanation ASSIGNMENT line vars arg
        = Inr (''Set '' @ name var @ '' to '' @ repr_value var))
   \<and> (arg \<noteq> PyNone \<and> py_repr arg = Inr r \<longrightarrow>
      generate_explanation RETURN line vars arg = Inr (''Returning: '' @ r))
   \<and> generate_explanation CONDITION line vars arg
        = Inr (''Evaluating condition: '' @ strip line)"
  by (simp add: generate_explanation_def Let_def)

theorem explanation_texts_witness:
  "filter changed (map snd [(''y'', ex_y_unchanged), (''x'', ex_x_changed)]) = [ex_x_changed]
   \<and> generate_explanation ASSIGNMENT ''x = 7'' [(''y'', ex_y_unchanged), (''x'', ex_x_changed)]
         PyNone
       = Inr ''Set x to 7''
   \<and> PyInt 120 \<noteq> PyNone \<and> py_repr (PyInt 120) = Inr ''120''
   \<and> generate_explanation RETURN ''    return 1'' [] (PyInt 120) = Inr ''Returning: 120''
   \<and> generate_explanation CONDITION ''    if n <= 1:'' [] PyNone
       = Inr ''Evaluating condition: if n <= 1:''"
proof -
  have f: "filter changed (map snd [(''y'', ex_y_unchanged), (''x'', ex_x_changed)])
             = [ex_x_changed]"
    by (simp add: ex_x_changed_def ex_y_unchanged_def)
  have r: "py_repr (PyInt 120) = Inr ''120''" by code_simp
  have s: "strip ''    if n <= 1:'' = ''if n <= 1:''" by code_simp
  from explanation_texts
         [of "[(''y'', ex_y_unchanged), (''x'', ex_x_changed)]" ex_x_changed "''x = 7''" PyNone]
       explanation_texts [of "[]" _ "''    return 1''" "PyInt 120" "''120''"]
       explanation_texts [of "[]" _ "''    if n <= 1:''" PyNone]
  show ?thesis using f r s by (simp add: ex_x_changed_def)
qed

end
